theory Spec2Isabelle
  imports Main
begin

section \<open>Date validation (validate_date, lines 70-85)\<close>

text \<open>
  Python strings are sequences of code points. They are modelled as \<^typ>\<open>string\<close>, that
  is, over the code points below 256; there the regular expression class \<open>\d\<close> is exactly
  the ten ASCII digits. (Over all of Unicode \<open>\d\<close> matches every decimal digit, so the
  real function accepts more strings than the ones modelled here, never fewer.)
\<close>

definition in_range :: "char \<Rightarrow> char \<Rightarrow> char \<Rightarrow> bool" where
  "in_range lo hi c = ((of_char lo :: nat) \<le> of_char c \<and> (of_char c :: nat) \<le> of_char hi)"

definition is_digit :: "char \<Rightarrow> bool" where
  "is_digit c = in_range (CHR ''0'') (CHR ''9'') c"

definition digit_of :: "char \<Rightarrow> nat" where
  "digit_of c = of_char c - 48"

text \<open>
  \<open>datetime.strptime\<close> compiles the format \<open>%Y-%m-%d\<close> to the regular expression
  \<^verbatim>\<open>(\d\d\d\d)-(1[0-2]|0[1-9]|[1-9])-(3[0-1]|[1-2]\d|0[1-9]|[1-9]| [1-9])\<close>
  and calls its \<open>match\<close>. A backtracking matcher is a function from the input to the list
  of (matched text, remaining input) pairs, in the order in which the engine tries them.
\<close>

type_synonym matcher = "string \<Rightarrow> (string \<times> string) list"

fun cls :: "(char \<Rightarrow> bool) \<Rightarrow> matcher" where
  "cls p [] = []"
| "cls p (c # cs) = (if p c then [([c], cs)] else [])"

definition lit :: "char \<Rightarrow> matcher" where
  "lit a = cls (\<lambda>c. c = a)"

definition seq :: "matcher \<Rightarrow> matcher \<Rightarrow> matcher" where
  "seq a b s = concat (map (\<lambda>(x, r). map (\<lambda>(y, r'). (x @ y, r')) (b r)) (a s))"

definition alt :: "matcher list \<Rightarrow> matcher" where
  "alt ms s = concat (map (\<lambda>m. m s) ms)"

definition re_Y :: matcher where
  "re_Y = seq (cls is_digit) (seq (cls is_digit) (seq (cls is_digit) (cls is_digit)))"

definition re_m :: matcher where
  "re_m = alt [seq (lit (CHR ''1'')) (cls (in_range (CHR ''0'') (CHR ''2''))),
               seq (lit (CHR ''0'')) (cls (in_range (CHR ''1'') (CHR ''9''))),
               cls (in_range (CHR ''1'') (CHR ''9''))]"

definition re_d :: matcher where
  "re_d = alt [seq (lit (CHR ''3'')) (cls (in_range (CHR ''0'') (CHR ''1''))),
               seq (cls (in_range (CHR ''1'') (CHR ''2''))) (cls is_digit),
               seq (lit (CHR ''0'')) (cls (in_range (CHR ''1'') (CHR ''9''))),
               cls (in_range (CHR ''1'') (CHR ''9'')),
               seq (lit (CHR '' '')) (cls (in_range (CHR ''1'') (CHR ''9'')))]"

text \<open>The groups Y, m and d of every match of the whole expression, with what is left.\<close>

definition format_regex :: "string \<Rightarrow> ((string \<times> string \<times> string) \<times> string) list" where
  "format_regex s =
     concat (map (\<lambda>(y, r1).
       concat (map (\<lambda>(_, r2).
         concat (map (\<lambda>(m, r3).
           concat (map (\<lambda>(_, r4).
             map (\<lambda>(d, r5). ((y, m, d), r5)) (re_d r4))
           (lit (CHR ''-'') r3)))
         (re_m r2)))
       (lit (CHR ''-'') r1)))
     (re_Y s))"

text \<open>
  \<open>int\<close> of a group: the blanks around it are stripped and the rest is read in base ten.
  The groups of the expression above hold nothing but digits after that.
\<close>

definition strip :: "string \<Rightarrow> string" where
  "strip s = rev (dropWhile (\<lambda>c. c = CHR '' '') (rev (dropWhile (\<lambda>c. c = CHR '' '') s)))"

definition py_int :: "string \<Rightarrow> nat" where
  "py_int s = foldl (\<lambda>n c. 10 * n + digit_of c) 0 (strip s)"

definition is_leap :: "nat \<Rightarrow> bool" where
  "is_leap y = (y mod 4 = 0 \<and> (y mod 100 \<noteq> 0 \<or> y mod 400 = 0))"

definition days_in_month :: "nat \<Rightarrow> nat \<Rightarrow> nat" where
  "days_in_month y m =
     (if m = 2 then (if is_leap y then 29 else 28)
      else if m \<in> {4, 6, 9, 11} then 30 else 31)"

text \<open>
  The \<open>date\<close> constructor raises \<open>ValueError\<close> unless the year is in 1..9999, the month in
  1..12 and the day in 1..days_in_month.
\<close>

definition date_ok :: "nat \<Rightarrow> nat \<Rightarrow> nat \<Rightarrow> bool" where
  "date_ok y m d =
     (1 \<le> y \<and> y \<le> 9999 \<and> 1 \<le> m \<and> m \<le> 12 \<and> 1 \<le> d \<and> d \<le> days_in_month y m)"

text \<open>
  \<open>strptime\<close>: \<open>None\<close> is \<open>ValueError\<close> (no match, unconverted data after the first match,
  or a date that does not exist); otherwise the year, month and day.
\<close>

definition strptime :: "string \<Rightarrow> (nat \<times> nat \<times> nat) option" where
  "strptime s =
     (case format_regex s of
        [] \<Rightarrow> None
      | ((y, m, d), rest) # _ \<Rightarrow>
          if rest \<noteq> [] then None
          else if date_ok (py_int y) (py_int m) (py_int d)
               then Some (py_int y, py_int m, py_int d)
               else None)"

definition validate_date :: "string \<Rightarrow> bool" where
  "validate_date sdate_in =
     (if length sdate_in \<noteq> 10 \<or> count_list sdate_in (CHR ''-'') \<noteq> 2 then False
      else (case strptime sdate_in of Some _ \<Rightarrow> True | None \<Rightarrow> False))"


section \<open>The database (schema of initialize_db, lines 28-50)\<close>

text \<open>
  \<open>member\<close> and \<open>book\<close> have a TEXT primary key and are only ever read by key, so they
  are maps from the key to the rest of the row. \<open>sale\<close> is listed in order, so it is the
  list of its rows; \<open>sale_seq\<close> is the AUTOINCREMENT counter of \<open>sale\<close> (the largest sid
  ever given out, 0 at first). Integers are Python's, unbounded; what SQLite's 64-bit
  INTEGER does to them is written out in \<open>execute\<close> below.
\<close>

record member_row =
  mname :: string
  mphone :: string
  memail :: "string option"

record book_row =
  btitle :: string
  bprice :: int
  bstock :: int

record sale_row =
  sid :: int
  sdate :: string
  mid :: string
  bid :: string
  sqty :: int
  sdiscount :: int
  stotal :: int

record db =
  member_tab :: "string \<rightharpoonup> member_row"
  book_tab :: "string \<rightharpoonup> book_row"
  sale_tab :: "sale_row list"
  sale_seq :: int

text \<open>The rows initialize_db puts into an empty database (lines 52-66).\<close>

definition seed_db :: db where
  "seed_db = \<lparr>
     member_tab = [
       ''M001'' \<mapsto> \<lparr>mname = ''Alice'', mphone = ''0912-345678'', memail = Some ''alice@example.com''\<rparr>,
       ''M002'' \<mapsto> \<lparr>mname = ''Bob'', mphone = ''0923-456789'', memail = Some ''bob@example.com''\<rparr>,
       ''M003'' \<mapsto> \<lparr>mname = ''Cathy'', mphone = ''0934-567890'', memail = Some ''cathy@example.com''\<rparr>],
     book_tab = [
       ''B001'' \<mapsto> \<lparr>btitle = ''Python Programming'', bprice = 600, bstock = 50\<rparr>,
       ''B002'' \<mapsto> \<lparr>btitle = ''Data Science Basics'', bprice = 800, bstock = 30\<rparr>,
       ''B003'' \<mapsto> \<lparr>btitle = ''Machine Learning Guide'', bprice = 1200, bstock = 20\<rparr>],
     sale_tab = [
       \<lparr>sid = 1, sdate = ''2024-01-15'', mid = ''M001'', bid = ''B001'', sqty = 2, sdiscount = 100, stotal = 1100\<rparr>,
       \<lparr>sid = 2, sdate = ''2024-01-16'', mid = ''M002'', bid = ''B002'', sqty = 1, sdiscount = 50, stotal = 750\<rparr>,
       \<lparr>sid = 3, sdate = ''2024-01-17'', mid = ''M001'', bid = ''B003'', sqty = 3, sdiscount = 200, stotal = 3400\<rparr>,
       \<lparr>sid = 4, sdate = ''2024-01-18'', mid = ''M003'', bid = ''B001'', sqty = 1, sdiscount = 0, stotal = 600\<rparr>],
     sale_seq = 4\<rparr>"

subsection \<open>Statements\<close>

text \<open>
  What the program prints or returns as its message. The texts are Chinese in the source;
  each constructor stands for one of them and carries the values the text is formatted
  with.
\<close>

datatype message =
    InvalidDate                 \<comment> \<open>line 102: invalid date format, must be YYYY-MM-DD\<close>
  | InvalidReference            \<comment> \<open>lines 110 and 116: member id or book id invalid\<close>
  | InvalidQuantity             \<comment> \<open>line 122: quantity must be a positive integer\<close>
  | InsufficientStock int       \<comment> \<open>line 124: stock insufficient (current stock: bstock)\<close>
  | InvalidDiscount             \<comment> \<open>line 128: discount must not be negative\<close>
  | SaleAdded int               \<comment> \<open>line 142: sale added (total: stotal)\<close>
  | SaleUpdated int int         \<comment> \<open>line 239: sale sid updated (total: stotal)\<close>
  | SaleDeleted int             \<comment> \<open>line 281: sale sid deleted\<close>
  | PersistenceError string     \<comment> \<open>lines 145, 242, 284: database operation failed - str(e)\<close>

text \<open>
  The storage engine can fail: \<open>FailAt k e\<close> says that the \<open>k\<close>-th call (from 0) on the
  connection inside a \<open>try\<close> block raises \<open>sqlite3.Error\<close> with text \<open>e\<close>. The queries
  before the \<open>try\<close> block of add_sale are taken to succeed.
\<close>

datatype fault = NoFault | FailAt nat string

fun fails :: "fault \<Rightarrow> nat \<Rightarrow> string option" where
  "fails NoFault k = None"
| "fails (FailAt j e) k = (if j = k then Some e else None)"

text \<open>
  What leaves a \<open>try\<close> block early: \<open>sqlite3.Error\<close>, which the \<open>except\<close> clause catches,
  or the \<open>OverflowError\<close> that binding a Python int outside the signed 64-bit range
  raises, which it does not catch.
\<close>

datatype raised = SqliteError string | IntOverflow

datatype exn = OverflowError

definition in_int64 :: "int \<Rightarrow> bool" where
  "in_int64 i = (- (2 ^ 63) \<le> i \<and> i < 2 ^ 63)"

text \<open>
  \<open>cursor.execute(sql, params)\<close> as the \<open>k\<close>-th call: the integer parameters are bound,
  then the statement runs, with effect \<open>stmt\<close> on the tables.
\<close>

definition execute :: "fault \<Rightarrow> nat \<Rightarrow> int list \<Rightarrow> (db \<Rightarrow> 'a) \<Rightarrow> db \<Rightarrow> raised + 'a" where
  "execute flt k params stmt d =
     (if \<not> list_all in_int64 params then Inl IntOverflow
      else (case fails flt k of Some e \<Rightarrow> Inl (SqliteError e) | None \<Rightarrow> Inr (stmt d)))"

definition commit :: "fault \<Rightarrow> nat \<Rightarrow> db \<Rightarrow> raised + db" where
  "commit flt k d = (case fails flt k of Some e \<Rightarrow> Inl (SqliteError e) | None \<Rightarrow> Inr d)"

text \<open>
  AUTOINCREMENT: the new sid is one more than the largest sid the table has ever held.
  When that is beyond the largest INTEGER, 2^63 - 1, SQLite gives out no sid: the INSERT
  raises \<open>sqlite3.Error\<close> with the text of SQLITE_FULL (see add_sale).
\<close>

definition next_sid :: "db \<Rightarrow> int" where
  "next_sid d = fold max (map sid (sale_tab d)) (sale_seq d) + 1"

text \<open>\<open>INSERT INTO sale (sdate, mid, bid, sqty, sdiscount, stotal) VALUES (...)\<close>\<close>

definition insert_sale :: "string \<Rightarrow> string \<Rightarrow> string \<Rightarrow> int \<Rightarrow> int \<Rightarrow> int \<Rightarrow> db \<Rightarrow> db" where
  "insert_sale sdate_in mid_in bid_in sqty_in sdiscount_in new_total d =
     d\<lparr>sale_tab := sale_tab d @
          [\<lparr>sid = next_sid d, sdate = sdate_in, mid = mid_in, bid = bid_in,
            sqty = sqty_in, sdiscount = sdiscount_in, stotal = new_total\<rparr>],
       sale_seq := next_sid d\<rparr>"

text \<open>\<open>UPDATE book SET bstock = bstock - ? WHERE bid = ?\<close>\<close>

definition update_stock :: "int \<Rightarrow> string \<Rightarrow> db \<Rightarrow> db" where
  "update_stock sqty_in bid_in d =
     (case book_tab d bid_in of
        None \<Rightarrow> d
      | Some bk \<Rightarrow> d\<lparr>book_tab := (book_tab d)(bid_in \<mapsto> bk\<lparr>bstock := bstock bk - sqty_in\<rparr>)\<rparr>)"

text \<open>
  \<open>SELECT s.sqty, b.bprice FROM sale s JOIN book b ON s.bid = b.bid WHERE s.sid = ?\<close>,
  then \<open>fetchone\<close>: the first row of the join, if there is one.
\<close>

definition select_sale :: "int \<Rightarrow> db \<Rightarrow> (int \<times> int) option" where
  "select_sale sid_in d =
     (case List.map_filter
             (\<lambda>r. if sid r = sid_in
                   then map_option (\<lambda>bk. (sqty r, bprice bk)) (book_tab d (bid r))
                   else None)
             (sale_tab d) of
        [] \<Rightarrow> None
      | row # _ \<Rightarrow> Some row)"

text \<open>\<open>UPDATE sale SET sdiscount = ?, stotal = ? WHERE sid = ?\<close>\<close>

definition update_sale_row :: "int \<Rightarrow> int \<Rightarrow> int \<Rightarrow> db \<Rightarrow> db" where
  "update_sale_row sdiscount_in new_total sid_in d =
     d\<lparr>sale_tab := map (\<lambda>r. if sid r = sid_in
                             then r\<lparr>sdiscount := sdiscount_in, stotal := new_total\<rparr> else r)
                      (sale_tab d)\<rparr>"

text \<open>\<open>DELETE FROM sale WHERE sid = ?\<close>\<close>

definition delete_sale_row :: "int \<Rightarrow> db \<Rightarrow> db" where
  "delete_sale_row sid_in d = d\<lparr>sale_tab := filter (\<lambda>r. sid r \<noteq> sid_in) (sale_tab d)\<rparr>"

text \<open>
  The listing of update_sale and delete_sale (lines 187 and 252):
  \<open>SELECT s.sid, m.mname, s.sdate FROM sale s JOIN member m ON s.mid = m.mid ORDER BY s.sid\<close>.
\<close>

definition list_sales :: "db \<Rightarrow> (int \<times> string \<times> string) list" where
  "list_sales d =
     List.map_filter
       (\<lambda>r. map_option (\<lambda>m. (sid r, mname m, sdate r)) (member_tab d (mid r)))
       (sort_key sid (sale_tab d))"

text \<open>
  The query of print_sale_report (lines 155-161): sale joined with member and book,
  ordered by sid; the columns are sid, sdate, mname, btitle, bprice, sqty, sdiscount,
  stotal.
\<close>

definition sale_report ::
  "db \<Rightarrow> (int \<times> string \<times> string \<times> string \<times> int \<times> int \<times> int \<times> int) list" where
  "sale_report d =
     List.map_filter
       (\<lambda>r. case member_tab d (mid r) of
               None \<Rightarrow> None
             | Some m \<Rightarrow>
                 (case book_tab d (bid r) of
                    None \<Rightarrow> None
                  | Some bk \<Rightarrow>
                      Some (sid r, sdate r, mname m, btitle bk, bprice bk,
                            sqty r, sdiscount r, stotal r)))
       (sort_key sid (sale_tab d))"

section \<open>The transaction engine\<close>

subsection \<open>add_sale (lines 87-145)\<close>

text \<open>
  The result is the database after the call and what the call does: \<open>Inr (ok, msg)\<close> is
  the returned pair, \<open>Inl OverflowError\<close> the exception that leaves the function. In the
  \<open>try\<close> block call 0 is the INSERT, call 1 the UPDATE of the stock, call 2 the commit.
  The INSERT also fails, with \<open>sqlite3.Error\<close>, when AUTOINCREMENT has no sid left.
  Whatever leaves the block early, the transaction is rolled back (by \<open>conn.rollback()\<close> on
  line 144, or by the \<open>with conn:\<close> block when the exception passes through it), so the
  database is the one before the call.
\<close>

definition add_sale ::
  "fault \<Rightarrow> db \<Rightarrow> string \<Rightarrow> string \<Rightarrow> string \<Rightarrow> int \<Rightarrow> int \<Rightarrow> db \<times> (exn + bool \<times> message)" where
  "add_sale flt d sdate_in mid_in bid_in sqty_in sdiscount_in =
     (if \<not> validate_date sdate_in then (d, Inr (False, InvalidDate))
      else if member_tab d mid_in = None then (d, Inr (False, InvalidReference))
      else (case book_tab d bid_in of
        None \<Rightarrow> (d, Inr (False, InvalidReference))
      | Some book \<Rightarrow>
          let price = bprice book; stock = bstock book in
          if sqty_in \<le> 0 then (d, Inr (False, InvalidQuantity))
          else if sqty_in > stock then (d, Inr (False, InsufficientStock stock))
          else if sdiscount_in < 0 then (d, Inr (False, InvalidDiscount))
          else
            let new_total = (price * sqty_in) - sdiscount_in in
            (case execute flt 0 [sqty_in, sdiscount_in, new_total]
                    (\<lambda>d0. if next_sid d0 < 2 ^ 63
                          then Some (insert_sale sdate_in mid_in bid_in sqty_in sdiscount_in
                                       new_total d0)
                          else None) d of
               Inl IntOverflow \<Rightarrow> (d, Inl OverflowError)
             | Inl (SqliteError e) \<Rightarrow> (d, Inr (False, PersistenceError e))
             | Inr None \<Rightarrow> (d, Inr (False, PersistenceError ''database or disk is full''))
             | Inr (Some d1) \<Rightarrow>
                 (case execute flt 1 [sqty_in] (update_stock sqty_in bid_in) d1 of
                    Inl IntOverflow \<Rightarrow> (d, Inl OverflowError)
                  | Inl (SqliteError e) \<Rightarrow> (d, Inr (False, PersistenceError e))
                  | Inr d2 \<Rightarrow>
                      (case commit flt 2 d2 of
                         Inl IntOverflow \<Rightarrow> (d, Inl OverflowError)
                       | Inl (SqliteError e) \<Rightarrow> (d, Inr (False, PersistenceError e))
                       | Inr d3 \<Rightarrow> (d3, Inr (True, SaleAdded new_total)))))))"

subsection \<open>update_sale (lines 223-242)\<close>

text \<open>
  The interactive part of update_sale (lines 185-221) shows \<open>list_sales\<close>, reads a choice
  and a discount, and leaves the loop of line 213 only with a discount that is not
  negative. \<open>select_sid\<close> is lines 205-208 for a choice already read as an integer. The
  engine's part is the \<open>try\<close> block: call 0 is the SELECT, call 1 the UPDATE, call 2 the
  commit; the message is what is printed, \<open>None\<close> when nothing is.
\<close>

definition select_sid :: "db \<Rightarrow> int \<Rightarrow> int option" where
  "select_sid d choice =
     (let sales = list_sales d in
      if choice < 1 \<or> choice > int (length sales) then None
      else Some (fst (sales ! nat (choice - 1))))"

definition update_sale :: "fault \<Rightarrow> db \<Rightarrow> int \<Rightarrow> int \<Rightarrow> db \<times> (exn + message option)" where
  "update_sale flt d sid_in sdiscount_in =
     (case execute flt 0 [sid_in] (select_sale sid_in) d of
        Inl IntOverflow \<Rightarrow> (d, Inl OverflowError)
      | Inl (SqliteError e) \<Rightarrow> (d, Inr (Some (PersistenceError e)))
      | Inr None \<Rightarrow> (d, Inr None)
      | Inr (Some (qty, price)) \<Rightarrow>
          let new_total = (price * qty) - sdiscount_in in
          (case execute flt 1 [sdiscount_in, new_total, sid_in]
                  (update_sale_row sdiscount_in new_total sid_in) d of
             Inl IntOverflow \<Rightarrow> (d, Inl OverflowError)
           | Inl (SqliteError e) \<Rightarrow> (d, Inr (Some (PersistenceError e)))
           | Inr d1 \<Rightarrow>
               (case commit flt 2 d1 of
                  Inl IntOverflow \<Rightarrow> (d, Inl OverflowError)
                | Inl (SqliteError e) \<Rightarrow> (d, Inr (Some (PersistenceError e)))
                | Inr d2 \<Rightarrow> (d2, Inr (Some (SaleUpdated sid_in new_total))))))"

subsection \<open>delete_sale (lines 278-284)\<close>

text \<open>Call 0 is the DELETE, call 1 the commit; the message is what is printed.\<close>

definition delete_sale :: "fault \<Rightarrow> db \<Rightarrow> int \<Rightarrow> db \<times> (exn + message)" where
  "delete_sale flt d sid_in =
     (case execute flt 0 [sid_in] (delete_sale_row sid_in) d of
        Inl IntOverflow \<Rightarrow> (d, Inl OverflowError)
      | Inl (SqliteError e) \<Rightarrow> (d, Inr (PersistenceError e))
      | Inr d1 \<Rightarrow>
          (case commit flt 1 d1 of
             Inl IntOverflow \<Rightarrow> (d, Inl OverflowError)
           | Inl (SqliteError e) \<Rightarrow> (d, Inr (PersistenceError e))
           | Inr d2 \<Rightarrow> (d2, Inr (SaleDeleted sid_in))))"

subsection \<open>Sequences of operations\<close>

datatype op =
    Create fault string string string int int
  | Update fault int int
  | Delete fault int

fun apply_op :: "db \<Rightarrow> op \<Rightarrow> db" where
  "apply_op d (Create flt sdate_in mid_in bid_in sqty_in sdiscount_in) =
     fst (add_sale flt d sdate_in mid_in bid_in sqty_in sdiscount_in)"
| "apply_op d (Update flt sid_in sdiscount_in) = fst (update_sale flt d sid_in sdiscount_in)"
| "apply_op d (Delete flt sid_in) = fst (delete_sale flt d sid_in)"

definition run :: "db \<Rightarrow> op list \<Rightarrow> db" where
  "run d ops = foldl apply_op d ops"

definition stock_nonneg :: "db \<Rightarrow> bool" where
  "stock_nonneg d = (\<forall>b bk. book_tab d b = Some bk \<longrightarrow> 0 \<le> bstock bk)"

text \<open>
  All rows of \<open>sale\<close> refer to a member and a book that exist. No constraint of the schema
  says so; add_sale checks it when it inserts a row.
\<close>

definition refs_ok :: "db \<Rightarrow> bool" where
  "refs_ok d =
     list_all (\<lambda>r. member_tab d (mid r) \<noteq> None \<and> book_tab d (bid r) \<noteq> None) (sale_tab d)"

text \<open>add_sale returned \<open>(True, message)\<close>.\<close>

definition succeeded :: "(exn + bool \<times> message) \<Rightarrow> bool" where
  "succeeded r = (case r of Inr (True, _) \<Rightarrow> True | _ \<Rightarrow> False)"

text \<open>
  The date validator as the specification words it (section 4.5), to compare
  validate_date with: exactly ten characters, the two separators in their places, digits
  everywhere else, and a day that exists in that month of that year.
\<close>

definition spec_is_valid_date :: "string \<Rightarrow> bool" where
  "spec_is_valid_date s =
     (length s = 10 \<and> s ! 4 = CHR ''-'' \<and> s ! 7 = CHR ''-'' \<and>
      list_all is_digit (take 4 s) \<and> list_all is_digit (take 2 (drop 5 s)) \<and>
      list_all is_digit (drop 8 s) \<and>
      date_ok (py_int (take 4 s)) (py_int (take 2 (drop 5 s))) (py_int (drop 8 s)))"

text \<open>The seeded database after the price of book B001 has been changed from 600 to 700.\<close>

definition repriced_db :: db where
  "repriced_db = seed_db\<lparr>book_tab := (book_tab seed_db)
      (''B001'' \<mapsto> \<lparr>btitle = ''Python Programming'', bprice = 700, bstock = 50\<rparr>)\<rparr>"

section \<open>Properties\<close>

subsection \<open>Evaluation on the seeded database\<close>

lemmas validate_date_unfold =
  validate_date_def strptime_def format_regex_def re_Y_def re_m_def re_d_def seq_def alt_def
  lit_def is_digit_def in_range_def py_int_def strip_def digit_of_def date_ok_def
  days_in_month_def is_leap_def

lemma valid_0201: "validate_date ''2024-02-01''"
  by (simp add: validate_date_unfold)

lemma valid_0202: "validate_date ''2024-02-02''"
  by (simp add: validate_date_unfold)

lemma invalid_0230: "\<not> validate_date ''2024-02-30''"
  by (simp add: validate_date_unfold)

lemma seed_member: "member_tab seed_db ''M001'' \<noteq> None" "member_tab seed_db ''M999'' = None"
  by (simp_all add: seed_db_def)

lemma seed_book:
  "book_tab seed_db ''B001'' = Some \<lparr>btitle = ''Python Programming'', bprice = 600, bstock = 50\<rparr>"
  "book_tab seed_db ''B999'' = None"
  by (simp_all add: seed_db_def)

lemma seed_sales: "sale_tab seed_db = [
  \<lparr>sid = 1, sdate = ''2024-01-15'', mid = ''M001'', bid = ''B001'', sqty = 2, sdiscount = 100, stotal = 1100\<rparr>,
  \<lparr>sid = 2, sdate = ''2024-01-16'', mid = ''M002'', bid = ''B002'', sqty = 1, sdiscount = 50, stotal = 750\<rparr>,
  \<lparr>sid = 3, sdate = ''2024-01-17'', mid = ''M001'', bid = ''B003'', sqty = 3, sdiscount = 200, stotal = 3400\<rparr>,
  \<lparr>sid = 4, sdate = ''2024-01-18'', mid = ''M003'', bid = ''B001'', sqty = 1, sdiscount = 0, stotal = 600\<rparr>]"
  by (simp add: seed_db_def)

lemma seed_next_sid: "next_sid seed_db = 5"
  by (simp add: next_sid_def seed_db_def)

lemma seed_list_sales:
  "list_sales seed_db = [(1, ''Alice'', ''2024-01-15''), (2, ''Bob'', ''2024-01-16''),
     (3, ''Alice'', ''2024-01-17''), (4, ''Cathy'', ''2024-01-18'')]"
  by (simp add: list_sales_def seed_db_def)

lemma seed_add_sale:
  "add_sale NoFault seed_db ''2024-02-01'' ''M001'' ''B001'' 2 100 =
     (update_stock 2 ''B001'' (insert_sale ''2024-02-01'' ''M001'' ''B001'' 2 100 1100 seed_db),
      Inr (True, SaleAdded 1100))"
  by (simp add: add_sale_def valid_0201 seed_db_def execute_def commit_def in_int64_def
                insert_sale_def update_stock_def next_sid_def)

text \<open>With the sid counter at 2^63 - 1 the INSERT finds no sid and nothing is written.\<close>

lemma seed_add_sale_no_sid_left:
  "add_sale NoFault (seed_db\<lparr>sale_seq := 2 ^ 63 - 1\<rparr>) ''2024-02-01'' ''M001'' ''B001'' 2 100 =
     (seed_db\<lparr>sale_seq := 2 ^ 63 - 1\<rparr>,
      Inr (False, PersistenceError ''database or disk is full''))"
  by (simp add: add_sale_def valid_0201 seed_db_def execute_def in_int64_def next_sid_def)

subsection \<open>Lists and lookups\<close>

lemma map_filter_None: "(\<And>x. x \<in> set xs \<Longrightarrow> f x = None) \<Longrightarrow> List.map_filter f xs = []"
  by (induction xs) auto

lemma map_filter_map: "List.map_filter f (map g xs) = List.map_filter (\<lambda>r. f (g r)) xs"
  by (induction xs) (auto split: option.splits)

lemma map_filter_filter_key:
  assumes "\<And>r y. g r = Some y \<Longrightarrow> fst y = sid r"
  shows "List.map_filter g (filter (\<lambda>r. sid r \<noteq> s) xs) =
         filter (\<lambda>y. fst y \<noteq> s) (List.map_filter g xs)"
  using assms by (induction xs) (auto split: option.splits)

lemma fold_max_ge: "(a::int) \<le> fold max xs a \<and> (\<forall>x\<in>set xs. x \<le> fold max xs a)"
proof (induction xs arbitrary: a)
  case Nil
  then show ?case by simp
next
  case (Cons y ys)
  from Cons.IH[of "max y a"] show ?case by auto
qed

lemma next_sid_fresh: "next_sid d \<notin> sid ` set (sale_tab d)"
proof
  assume "next_sid d \<in> sid ` set (sale_tab d)"
  then have "next_sid d \<in> set (map sid (sale_tab d))" by simp
  with fold_max_ge[of "sale_seq d" "map sid (sale_tab d)"]
  have "next_sid d \<le> fold max (map sid (sale_tab d)) (sale_seq d)" by blast
  then show False by (simp add: next_sid_def)
qed

lemma select_sale_missing:
  assumes "sid_in \<notin> sid ` set (sale_tab d)"
  shows "select_sale sid_in d = None"
proof -
  have "List.map_filter
          (\<lambda>r. if sid r = sid_in
                then map_option (\<lambda>bk. (sqty r, bprice bk)) (book_tab d (bid r)) else None)
          (sale_tab d) = []"
    using assms by (intro map_filter_None) force
  then show ?thesis by (simp add: select_sale_def)
qed

lemma select_sale_unique:
  assumes "distinct (map sid (sale_tab d))" and "r \<in> set (sale_tab d)"
      and "book_tab d (bid r) = Some bk"
  shows "select_sale (sid r) d = Some (sqty r, bprice bk)"
proof -
  let ?f = "\<lambda>x. if sid x = sid r
                 then map_option (\<lambda>bk. (sqty x, bprice bk)) (book_tab d (bid x)) else None"
  have "distinct (map sid xs) \<Longrightarrow> r \<in> set xs \<Longrightarrow> List.map_filter ?f xs = [(sqty r, bprice bk)]"
    for xs
  proof (induction xs)
    case Nil
    then show ?case by simp
  next
    case (Cons x xs)
    show ?case
    proof (cases "x = r")
      case True
      with Cons.prems have "\<forall>y\<in>set xs. sid y \<noteq> sid r" by (auto simp: image_iff)
      then have "List.map_filter ?f xs = []" by (intro map_filter_None) simp
      with True assms(3) show ?thesis by simp
    next
      case False
      with Cons.prems have r: "r \<in> set xs" and d: "distinct (map sid xs)"
        and "sid x \<notin> sid ` set xs"
        by auto
      then have "sid x \<noteq> sid r" by auto
      with Cons.IH[OF d r] show ?thesis by simp
    qed
  qed
  from this[OF assms(1,2)] show ?thesis by (simp add: select_sale_def)
qed

lemma select_sale_update_sale_row:
  "select_sale s (update_sale_row x t s' d) = select_sale s d"
proof -
  let ?F = "\<lambda>r. if sid r = s
                 then map_option (\<lambda>bk. (sqty r, bprice bk)) (book_tab d (bid r)) else None"
  let ?g = "\<lambda>r. if sid r = s' then r\<lparr>sdiscount := x, stotal := t\<rparr> else r"
  have fg: "(\<lambda>r. ?F (?g r)) = ?F" by (auto simp: fun_eq_iff)
  have mf: "List.map_filter ?F (map ?g (sale_tab d)) = List.map_filter ?F (sale_tab d)"
    unfolding map_filter_map fg ..
  have "select_sale s (update_sale_row x t s' d) =
          (case List.map_filter ?F (map ?g (sale_tab d)) of [] \<Rightarrow> None | row # _ \<Rightarrow> Some row)"
    by (simp add: select_sale_def update_sale_row_def cong: if_cong)
  also have "\<dots> = select_sale s d"
    unfolding mf by (simp add: select_sale_def)
  finally show ?thesis .
qed

lemma update_sale_row_idem:
  "update_sale_row x t s (update_sale_row x t s d) = update_sale_row x t s d"
  by (simp add: update_sale_row_def)

lemma sids_update_sale_row:
  "map sid (sale_tab (update_sale_row a b s d)) = map sid (sale_tab d)"
proof -
  have "sid \<circ> (\<lambda>r. if sid r = s then r\<lparr>sdiscount := a, stotal := b\<rparr> else r) = sid"
    by (auto simp: fun_eq_iff)
  then show ?thesis by (simp add: update_sale_row_def)
qed

lemma delete_sale_row_missing:
  assumes "sid_in \<notin> sid ` set (sale_tab d)"
  shows "delete_sale_row sid_in d = d"
proof -
  from assms have "filter (\<lambda>r. sid r \<noteq> sid_in) (sale_tab d) = sale_tab d"
    by (intro filter_True) auto
  then show ?thesis by (simp add: delete_sale_row_def)
qed

lemma list_sales_delete:
  "list_sales (delete_sale_row s d) = filter (\<lambda>y. fst y \<noteq> s) (list_sales d)"
proof -
  have "list_sales (delete_sale_row s d) =
          List.map_filter
            (\<lambda>r. map_option (\<lambda>m. (sid r, mname m, sdate r)) (member_tab d (mid r)))
            (filter (\<lambda>r. sid r \<noteq> s) (sort_key sid (sale_tab d)))"
    by (simp add: list_sales_def delete_sale_row_def filter_sort)
  also have "\<dots> = filter (\<lambda>y. fst y \<noteq> s) (list_sales d)"
    unfolding list_sales_def by (rule map_filter_filter_key) auto
  finally show ?thesis .
qed

lemma sale_report_delete:
  "sale_report (delete_sale_row s d) = filter (\<lambda>y. fst y \<noteq> s) (sale_report d)"
proof -
  let ?g = "\<lambda>r. case member_tab d (mid r) of
               None \<Rightarrow> None
             | Some m \<Rightarrow>
                 (case book_tab d (bid r) of
                    None \<Rightarrow> None
                  | Some bk \<Rightarrow>
                      Some (sid r, sdate r, mname m, btitle bk, bprice bk,
                            sqty r, sdiscount r, stotal r))"
  have "sale_report (delete_sale_row s d) =
          List.map_filter ?g (filter (\<lambda>r. sid r \<noteq> s) (sort_key sid (sale_tab d)))"
    by (simp add: sale_report_def delete_sale_row_def filter_sort cong: option.case_cong)
  also have "\<dots> = filter (\<lambda>y. fst y \<noteq> s) (sale_report d)"
    unfolding sale_report_def by (rule map_filter_filter_key) (auto split: option.splits)
  finally show ?thesis .
qed

lemma set_map_filter: "set (List.map_filter f xs) = {y. \<exists>x\<in>set xs. f x = Some y}"
  by (induction xs) (auto split: option.splits)

lemma list_sales_sids: "fst ` set (list_sales d) \<subseteq> sid ` set (sale_tab d)"
  by (auto simp: list_sales_def set_map_filter)

text \<open>The sid that the interactive part hands to the engine is the sid of a sale row.\<close>

lemma select_sid_exists:
  assumes "select_sid d choice = Some s"
  shows "s \<in> sid ` set (sale_tab d)"
proof -
  from assms have n: "nat (choice - 1) < length (list_sales d)"
    and s: "s = fst (list_sales d ! nat (choice - 1))"
    by (auto simp: select_sid_def Let_def split: if_splits)
  from n have "list_sales d ! nat (choice - 1) \<in> set (list_sales d)" by (rule nth_mem)
  with s have "s \<in> fst ` set (list_sales d)" by (auto intro: rev_image_eqI)
  with list_sales_sids show ?thesis by blast
qed

subsection \<open>What each operation can do to the database\<close>

lemma add_sale_success:
  assumes "add_sale flt d sdate_in mid_in bid_in sqty_in sdiscount_in = (d', Inr (True, msg))"
  shows "\<exists>bk. validate_date sdate_in \<and> member_tab d mid_in \<noteq> None \<and>
           book_tab d bid_in = Some bk \<and>
           0 < sqty_in \<and> sqty_in \<le> bstock bk \<and> 0 \<le> sdiscount_in \<and>
           msg = SaleAdded (bprice bk * sqty_in - sdiscount_in) \<and>
           d' = update_stock sqty_in bid_in
                  (insert_sale sdate_in mid_in bid_in sqty_in sdiscount_in
                     (bprice bk * sqty_in - sdiscount_in) d)"
  using assms
  by (auto simp: add_sale_def execute_def commit_def Let_def
           split: if_splits option.splits sum.splits raised.splits)

lemma add_sale_fst_cases:
  "fst (add_sale flt d sdate_in mid_in bid_in sqty_in sdiscount_in) = d \<or>
   (\<exists>bk. member_tab d mid_in \<noteq> None \<and> book_tab d bid_in = Some bk \<and>
      0 < sqty_in \<and> sqty_in \<le> bstock bk \<and>
      fst (add_sale flt d sdate_in mid_in bid_in sqty_in sdiscount_in) =
        update_stock sqty_in bid_in
          (insert_sale sdate_in mid_in bid_in sqty_in sdiscount_in
             (bprice bk * sqty_in - sdiscount_in) d))"
  by (auto simp: add_sale_def execute_def commit_def Let_def
           split: if_splits option.splits sum.splits raised.splits)

lemma update_sale_NoFault:
  "update_sale NoFault d sid_in sdiscount_in =
    (if \<not> in_int64 sid_in then (d, Inl OverflowError)
     else case select_sale sid_in d of
       None \<Rightarrow> (d, Inr None)
     | Some (qty, price) \<Rightarrow>
         if in_int64 sdiscount_in \<and> in_int64 (price * qty - sdiscount_in)
         then (update_sale_row sdiscount_in (price * qty - sdiscount_in) sid_in d,
               Inr (Some (SaleUpdated sid_in (price * qty - sdiscount_in))))
         else (d, Inl OverflowError))"
  by (auto simp: update_sale_def execute_def commit_def Let_def split: option.splits)

lemma update_sale_fst_cases:
  "fst (update_sale flt d sid_in sdiscount_in) = d \<or>
   (\<exists>qty price. select_sale sid_in d = Some (qty, price) \<and>
      fst (update_sale flt d sid_in sdiscount_in) =
        update_sale_row sdiscount_in (price * qty - sdiscount_in) sid_in d)"
  by (auto simp: update_sale_def execute_def commit_def Let_def split: option.splits)

lemma update_sale_frame:
  "book_tab (fst (update_sale flt d sid_in sdiscount_in)) = book_tab d \<and>
   member_tab (fst (update_sale flt d sid_in sdiscount_in)) = member_tab d \<and>
   sale_seq (fst (update_sale flt d sid_in sdiscount_in)) = sale_seq d"
  by (auto simp: update_sale_def execute_def commit_def update_sale_row_def Let_def
           split: option.splits sum.splits raised.splits)

lemma delete_sale_NoFault:
  "in_int64 sid_in \<Longrightarrow>
   delete_sale NoFault d sid_in = (delete_sale_row sid_in d, Inr (SaleDeleted sid_in))"
  by (simp add: delete_sale_def execute_def commit_def)

lemma delete_sale_fst_cases:
  "fst (delete_sale flt d sid_in) = d \<or>
   fst (delete_sale flt d sid_in) = delete_sale_row sid_in d"
  by (auto simp: delete_sale_def execute_def commit_def split: option.splits)

lemma delete_sale_frame:
  "book_tab (fst (delete_sale flt d sid_in)) = book_tab d \<and>
   member_tab (fst (delete_sale flt d sid_in)) = member_tab d \<and>
   sale_seq (fst (delete_sale flt d sid_in)) = sale_seq d"
  using delete_sale_fst_cases[of flt d sid_in] by (auto simp: delete_sale_row_def)

subsection \<open>Invariants of the sale table\<close>

text \<open>
  The engine keeps the sids of \<open>sale\<close> distinct (sid is the primary key) and keeps every
  sale row pointing at a member and a book that exist.
\<close>

lemma apply_op_distinct_sids:
  assumes "distinct (map sid (sale_tab d))"
  shows "distinct (map sid (sale_tab (apply_op d x)))"
proof (cases x)
  case (Create flt sdate_in mid_in bid_in sqty_in sdiscount_in)
  with add_sale_fst_cases[of flt d sdate_in mid_in bid_in sqty_in sdiscount_in] assms
       next_sid_fresh[of d]
  show ?thesis by (auto simp: update_stock_def insert_sale_def)
next
  case (Update flt sid_in sdiscount_in)
  with update_sale_fst_cases[of flt d sid_in sdiscount_in] assms
  show ?thesis by (auto simp: sids_update_sale_row)
next
  case (Delete flt sid_in)
  with delete_sale_fst_cases[of flt d sid_in] assms
  show ?thesis by (auto simp: delete_sale_row_def distinct_map_filter)
qed

lemma run_distinct_sids:
  "distinct (map sid (sale_tab d)) \<Longrightarrow> distinct (map sid (sale_tab (run d ops)))"
  unfolding run_def
  by (induction ops arbitrary: d) (simp_all add: apply_op_distinct_sids)

lemma apply_op_refs_ok:
  assumes "refs_ok d"
  shows "refs_ok (apply_op d x)"
proof (cases x)
  case (Create flt sdate_in mid_in bid_in sqty_in sdiscount_in)
  with add_sale_fst_cases[of flt d sdate_in mid_in bid_in sqty_in sdiscount_in] assms
  show ?thesis
    by (auto simp: refs_ok_def update_stock_def insert_sale_def list_all_iff)
next
  case (Update flt sid_in sdiscount_in)
  with update_sale_fst_cases[of flt d sid_in sdiscount_in] assms
  show ?thesis by (auto simp: refs_ok_def update_sale_row_def list_all_iff)
next
  case (Delete flt sid_in)
  with delete_sale_fst_cases[of flt d sid_in] assms
  show ?thesis by (auto simp: refs_ok_def delete_sale_row_def list_all_iff)
qed

lemma run_refs_ok: "refs_ok d \<Longrightarrow> refs_ok (run d ops)"
  unfolding run_def
  by (induction ops arbitrary: d) (simp_all add: apply_op_refs_ok)

lemma seed_invariants: "distinct (map sid (sale_tab seed_db)) \<and> refs_ok seed_db"
  by (simp add: seed_db_def refs_ok_def)

subsection \<open>Creating a sale\<close>

text \<open>
  Claim C1. Whenever add_sale succeeds (returns \<open>True\<close>), the sale table is the old one
  with one new row whose stotal is the price the book has at that moment times the
  quantity, minus the discount; and the stock of that book, and of no other, has gone
  down by the quantity. The returned message reports the same total.
\<close>

theorem add_sale_total_and_stock:
  assumes "add_sale flt d sdate_in mid_in bid_in sqty_in sdiscount_in = (d', Inr (True, msg))"
  shows "\<exists>bk. book_tab d bid_in = Some bk \<and>
           msg = SaleAdded (bprice bk * sqty_in - sdiscount_in) \<and>
           sale_tab d' = sale_tab d @
             [\<lparr>sid = next_sid d, sdate = sdate_in, mid = mid_in, bid = bid_in, sqty = sqty_in,
               sdiscount = sdiscount_in, stotal = bprice bk * sqty_in - sdiscount_in\<rparr>] \<and>
           book_tab d' = (book_tab d)(bid_in \<mapsto> bk\<lparr>bstock := bstock bk - sqty_in\<rparr>) \<and>
           member_tab d' = member_tab d"
proof -
  from add_sale_success[OF assms] obtain bk where
    bk: "book_tab d bid_in = Some bk" and
    msg: "msg = SaleAdded (bprice bk * sqty_in - sdiscount_in)" and
    d': "d' = update_stock sqty_in bid_in
                (insert_sale sdate_in mid_in bid_in sqty_in sdiscount_in
                   (bprice bk * sqty_in - sdiscount_in) d)"
    by blast
  show ?thesis using bk msg d'
    by (simp add: update_stock_def insert_sale_def)
qed

theorem add_sale_total_and_stock_witness:
  "snd (add_sale NoFault seed_db ''2024-02-01'' ''M001'' ''B001'' 2 100) =
     Inr (True, SaleAdded 1100) \<and>
   sale_tab (fst (add_sale NoFault seed_db ''2024-02-01'' ''M001'' ''B001'' 2 100)) =
     sale_tab seed_db @
       [\<lparr>sid = 5, sdate = ''2024-02-01'', mid = ''M001'', bid = ''B001'', sqty = 2,
         sdiscount = 100, stotal = 1100\<rparr>] \<and>
   book_tab (fst (add_sale NoFault seed_db ''2024-02-01'' ''M001'' ''B001'' 2 100)) ''B001'' =
     Some \<lparr>btitle = ''Python Programming'', bprice = 600, bstock = 48\<rparr>"
proof -
  let ?r = "add_sale NoFault seed_db ''2024-02-01'' ''M001'' ''B001'' 2 100"
  have run: "?r = (fst ?r, Inr (True, SaleAdded 1100))"
    by (simp add: seed_add_sale)
  from add_sale_total_and_stock[OF run] seed_book(1) seed_next_sid
  show ?thesis using run by (auto simp: prod_eq_iff)
qed

text \<open>
  Claim C2. The checks of add_sale are made in this order, and the first that fails
  decides what is returned, whatever the later ones would say: the date, the member, the
  book, a quantity that is not positive, a quantity above the stock, a negative discount.
  A missing member and a missing book give the same message, and the message about the
  stock carries the stock the book has. Nothing is written in any of these cases.
\<close>

theorem add_sale_validation_order:
  "(\<not> validate_date sdate_in \<longrightarrow>
      add_sale flt d sdate_in mid_in bid_in sqty_in sdiscount_in =
        (d, Inr (False, InvalidDate))) \<and>
   (validate_date sdate_in \<and> member_tab d mid_in = None \<longrightarrow>
      add_sale flt d sdate_in mid_in bid_in sqty_in sdiscount_in =
        (d, Inr (False, InvalidReference))) \<and>
   (validate_date sdate_in \<and> member_tab d mid_in \<noteq> None \<and> book_tab d bid_in = None \<longrightarrow>
      add_sale flt d sdate_in mid_in bid_in sqty_in sdiscount_in =
        (d, Inr (False, InvalidReference))) \<and>
   (validate_date sdate_in \<and> member_tab d mid_in \<noteq> None \<and> book_tab d bid_in = Some bk \<and>
    sqty_in \<le> 0 \<longrightarrow>
      add_sale flt d sdate_in mid_in bid_in sqty_in sdiscount_in =
        (d, Inr (False, InvalidQuantity))) \<and>
   (validate_date sdate_in \<and> member_tab d mid_in \<noteq> None \<and> book_tab d bid_in = Some bk \<and>
    0 < sqty_in \<and> bstock bk < sqty_in \<longrightarrow>
      add_sale flt d sdate_in mid_in bid_in sqty_in sdiscount_in =
        (d, Inr (False, InsufficientStock (bstock bk)))) \<and>
   (validate_date sdate_in \<and> member_tab d mid_in \<noteq> None \<and> book_tab d bid_in = Some bk \<and>
    0 < sqty_in \<and> sqty_in \<le> bstock bk \<and> sdiscount_in < 0 \<longrightarrow>
      add_sale flt d sdate_in mid_in bid_in sqty_in sdiscount_in =
        (d, Inr (False, InvalidDiscount)))"
  by (auto simp: add_sale_def Let_def)

theorem add_sale_validation_order_witness:
  "add_sale NoFault seed_db ''2024-02-30'' ''M999'' ''B999'' 0 (- 1) =
     (seed_db, Inr (False, InvalidDate)) \<and>
   add_sale NoFault seed_db ''2024-02-01'' ''M999'' ''B999'' 0 (- 1) =
     (seed_db, Inr (False, InvalidReference)) \<and>
   add_sale NoFault seed_db ''2024-02-01'' ''M001'' ''B999'' 0 (- 1) =
     (seed_db, Inr (False, InvalidReference)) \<and>
   add_sale NoFault seed_db ''2024-02-01'' ''M001'' ''B001'' 0 (- 1) =
     (seed_db, Inr (False, InvalidQuantity)) \<and>
   add_sale NoFault seed_db ''2024-02-01'' ''M001'' ''B001'' 51 (- 1) =
     (seed_db, Inr (False, InsufficientStock 50)) \<and>
   add_sale NoFault seed_db ''2024-02-01'' ''M001'' ''B001'' 50 (- 1) =
     (seed_db, Inr (False, InvalidDiscount))"
proof -
  let ?bk = "\<lparr>btitle = ''Python Programming'', bprice = 600, bstock = 50\<rparr>"
  note t = add_sale_validation_order
    [where flt = NoFault and d = seed_db and sdiscount_in = "- 1" and bk = ?bk]
  have 1: "add_sale NoFault seed_db ''2024-02-30'' ''M999'' ''B999'' 0 (- 1) =
             (seed_db, Inr (False, InvalidDate))"
    using t[where sdate_in = "''2024-02-30''" and mid_in = "''M999''" and bid_in = "''B999''"
              and sqty_in = 0]
      invalid_0230 by simp
  have 2: "add_sale NoFault seed_db ''2024-02-01'' ''M999'' ''B999'' 0 (- 1) =
             (seed_db, Inr (False, InvalidReference))"
    using t[where sdate_in = "''2024-02-01''" and mid_in = "''M999''" and bid_in = "''B999''"
              and sqty_in = 0]
      valid_0201 seed_member by simp
  have 3: "add_sale NoFault seed_db ''2024-02-01'' ''M001'' ''B999'' 0 (- 1) =
             (seed_db, Inr (False, InvalidReference))"
    using t[where sdate_in = "''2024-02-01''" and mid_in = "''M001''" and bid_in = "''B999''"
              and sqty_in = 0]
      valid_0201 seed_member seed_book by simp
  have 4: "add_sale NoFault seed_db ''2024-02-01'' ''M001'' ''B001'' 0 (- 1) =
             (seed_db, Inr (False, InvalidQuantity))"
    using t[where sdate_in = "''2024-02-01''" and mid_in = "''M001''" and bid_in = "''B001''"
              and sqty_in = 0]
      valid_0201 seed_member seed_book by simp
  have 5: "add_sale NoFault seed_db ''2024-02-01'' ''M001'' ''B001'' 51 (- 1) =
             (seed_db, Inr (False, InsufficientStock 50))"
    using t[where sdate_in = "''2024-02-01''" and mid_in = "''M001''" and bid_in = "''B001''"
              and sqty_in = 51]
      valid_0201 seed_member seed_book by simp
  have 6: "add_sale NoFault seed_db ''2024-02-01'' ''M001'' ''B001'' 50 (- 1) =
             (seed_db, Inr (False, InvalidDiscount))"
    using t[where sdate_in = "''2024-02-01''" and mid_in = "''M001''" and bid_in = "''B001''"
              and sqty_in = 50]
      valid_0201 seed_member seed_book by simp
  from 1 2 3 4 5 6 show ?thesis by blast
qed

text \<open>
  Claim C3. A call of add_sale that does not succeed leaves the whole database as it
  was: no sale row, no change of stock, the sid counter untouched. This covers every
  check that fails, a storage error at the INSERT, at the UPDATE of the stock or at the
  commit, and the overflow of a bound integer.
\<close>

theorem add_sale_failure_unchanged:
  "\<not> succeeded (snd (add_sale flt d sdate_in mid_in bid_in sqty_in sdiscount_in)) \<Longrightarrow>
   fst (add_sale flt d sdate_in mid_in bid_in sqty_in sdiscount_in) = d"
  by (auto simp: add_sale_def execute_def commit_def Let_def succeeded_def
           split: if_splits option.splits sum.splits raised.splits)

theorem add_sale_failure_unchanged_witness:
  "snd (add_sale NoFault seed_db ''2024-02-01'' ''M001'' ''B001'' 0 100) =
     Inr (False, InvalidQuantity) \<and>
   fst (add_sale NoFault seed_db ''2024-02-01'' ''M001'' ''B001'' 0 100) = seed_db \<and>
   snd (add_sale (FailAt 1 ''disk I/O error'') seed_db ''2024-02-01'' ''M001'' ''B001'' 2 100) =
     Inr (False, PersistenceError ''disk I/O error'') \<and>
   fst (add_sale (FailAt 1 ''disk I/O error'') seed_db ''2024-02-01'' ''M001'' ''B001'' 2 100) =
     seed_db \<and>
   snd (add_sale NoFault seed_db ''2024-02-01'' ''M001'' ''B001'' 2 (2 ^ 63)) =
     Inl OverflowError \<and>
   fst (add_sale NoFault seed_db ''2024-02-01'' ''M001'' ''B001'' 2 (2 ^ 63)) = seed_db"
proof -
  have a: "snd (add_sale NoFault seed_db ''2024-02-01'' ''M001'' ''B001'' 0 100) =
             Inr (False, InvalidQuantity)"
    by (simp add: add_sale_def valid_0201 seed_db_def)
  have b: "snd (add_sale (FailAt 1 ''disk I/O error'') seed_db
                  ''2024-02-01'' ''M001'' ''B001'' 2 100) =
             Inr (False, PersistenceError ''disk I/O error'')"
    by (simp add: add_sale_def valid_0201 seed_db_def execute_def in_int64_def next_sid_def)
  have c: "snd (add_sale NoFault seed_db ''2024-02-01'' ''M001'' ''B001'' 2 (2 ^ 63)) =
             Inl OverflowError"
    by (simp add: add_sale_def valid_0201 seed_db_def execute_def in_int64_def)
  from a b c
    add_sale_failure_unchanged
      [of NoFault seed_db "''2024-02-01''" "''M001''" "''B001''" 0 100]
    add_sale_failure_unchanged
      [of "FailAt 1 ''disk I/O error''" seed_db "''2024-02-01''" "''M001''" "''B001''" 2 100]
    add_sale_failure_unchanged
      [of NoFault seed_db "''2024-02-01''" "''M001''" "''B001''" 2 "2 ^ 63"]
  show ?thesis by (simp add: succeeded_def)
qed

text \<open>
  Claim C9. The total is not clamped at zero. On the seeded database the member M001 and
  the book B001 (price 600, stock 50) exist, the date is valid, the quantity 1 is within
  the stock and the discount 700 is not negative; add_sale succeeds and stores the total
  - 100.
\<close>

theorem add_sale_total_not_clamped:
  "validate_date ''2024-02-01'' \<and> member_tab seed_db ''M001'' \<noteq> None \<and>
   book_tab seed_db ''B001'' =
     Some \<lparr>btitle = ''Python Programming'', bprice = 600, bstock = 50\<rparr> \<and>
   (0::int) < 1 \<and> (1::int) \<le> 50 \<and> (0::int) \<le> 700 \<and> (600 * 1 :: int) < 700 \<and>
   snd (add_sale NoFault seed_db ''2024-02-01'' ''M001'' ''B001'' 1 700) =
     Inr (True, SaleAdded (- 100)) \<and>
   sale_tab (fst (add_sale NoFault seed_db ''2024-02-01'' ''M001'' ''B001'' 1 700)) =
     sale_tab seed_db @
       [\<lparr>sid = 5, sdate = ''2024-02-01'', mid = ''M001'', bid = ''B001'', sqty = 1,
         sdiscount = 700, stotal = - 100\<rparr>]"
  by (simp add: valid_0201 seed_member seed_book)
     (simp add: add_sale_def valid_0201 seed_db_def execute_def commit_def in_int64_def
                insert_sale_def update_stock_def next_sid_def)

theorem add_sale_total_not_clamped_witness:
  "stotal (last (sale_tab (fst (add_sale NoFault seed_db ''2024-02-01'' ''M001'' ''B001'' 1 700))))
     < 0"
  using add_sale_total_not_clamped by simp

subsection \<open>Updating a sale\<close>

lemma select_sale_Some:
  assumes "select_sale s d = Some (q, p)"
  shows "\<exists>x\<in>set (sale_tab d). \<exists>bk. sid x = s \<and> book_tab d (bid x) = Some bk \<and>
           q = sqty x \<and> p = bprice bk"
proof -
  let ?F = "\<lambda>r. if sid r = s
                 then map_option (\<lambda>bk. (sqty r, bprice bk)) (book_tab d (bid r)) else None"
  from assms have "(q, p) \<in> set (List.map_filter ?F (sale_tab d))"
    by (auto simp: select_sale_def split: list.splits)
  then obtain x where "x \<in> set (sale_tab d)" and "?F x = Some (q, p)"
    by (auto simp: set_map_filter)
  then show ?thesis by (auto split: if_splits)
qed

lemma distinct_sid_unique:
  "distinct (map sid xs) \<Longrightarrow> x \<in> set xs \<Longrightarrow> r \<in> set xs \<Longrightarrow> sid x = sid r \<Longrightarrow> x = r"
  by (auto simp: distinct_map dest: inj_onD)

lemma update_sale_updated:
  assumes "update_sale flt d s0 sdiscount_in = (d', Inr (Some (SaleUpdated s t)))"
  shows "\<exists>q p. select_sale s0 d = Some (q, p) \<and> s = s0 \<and> t = p * q - sdiscount_in \<and>
           d' = update_sale_row sdiscount_in (p * q - sdiscount_in) s0 d"
  using assms
  by (auto simp: update_sale_def execute_def commit_def Let_def
           split: if_splits option.splits sum.splits raised.splits)

text \<open>
  Claim C5, as the code has it. When an update of the discount of a sale that exists is
  carried out, that is, update_sale prints that the sale was updated, the total is
  recomputed from the price the book has now, not the one it had when the sale was made,
  and from the quantity stored in the row: that row gets the new discount and
  price * quantity - new discount, and every other row stays as it is. No call of
  update_sale, carried out or not, changes the book table.
  When the storage raises no error, the update is carried out exactly when the new
  discount and the new total fit SQLite's INTEGER of 64 bits; when they do not,
  \<open>OverflowError\<close> leaves the function and nothing is written. The sid is the primary
  key, so it is distinct in the table.
\<close>

theorem update_sale_recomputes_total:
  assumes "distinct (map sid (sale_tab d))" and "r \<in> set (sale_tab d)"
  shows "(update_sale flt d (sid r) sdiscount_in = (d', Inr (Some (SaleUpdated s t))) \<longrightarrow>
           (\<exists>bk. book_tab d (bid r) = Some bk \<and> s = sid r \<and>
                 t = bprice bk * sqty r - sdiscount_in \<and>
                 d' = d\<lparr>sale_tab :=
                         map (\<lambda>x. if sid x = sid r
                                  then x\<lparr>sdiscount := sdiscount_in, stotal := t\<rparr>
                                  else x) (sale_tab d)\<rparr>)) \<and>
         book_tab (fst (update_sale flt d (sid r) sdiscount_in)) = book_tab d \<and>
         (book_tab d (bid r) = Some bk \<and> in_int64 (sid r) \<longrightarrow>
            update_sale NoFault d (sid r) sdiscount_in =
              (if in_int64 sdiscount_in \<and> in_int64 (bprice bk * sqty r - sdiscount_in)
               then (d\<lparr>sale_tab :=
                          map (\<lambda>x. if sid x = sid r
                                   then x\<lparr>sdiscount := sdiscount_in,
                                          stotal := bprice bk * sqty r - sdiscount_in\<rparr>
                                   else x) (sale_tab d)\<rparr>,
                     Inr (Some (SaleUpdated (sid r) (bprice bk * sqty r - sdiscount_in))))
               else (d, Inl OverflowError)))"
proof (intro conjI impI)
  assume ok: "update_sale flt d (sid r) sdiscount_in = (d', Inr (Some (SaleUpdated s t)))"
  from update_sale_updated[OF ok] obtain q p where
    sel: "select_sale (sid r) d = Some (q, p)" and s: "s = sid r"
    and t: "t = p * q - sdiscount_in"
    and d': "d' = update_sale_row sdiscount_in (p * q - sdiscount_in) (sid r) d"
    by blast
  from select_sale_Some[OF sel] obtain x bk where
    x: "x \<in> set (sale_tab d)" "sid x = sid r" and bk: "book_tab d (bid x) = Some bk"
    and qp: "q = sqty x" "p = bprice bk"
    by blast
  from distinct_sid_unique[OF assms(1) x(1) assms(2) x(2)] have "x = r" .
  with bk qp s t d' show "\<exists>bk. book_tab d (bid r) = Some bk \<and> s = sid r \<and>
                 t = bprice bk * sqty r - sdiscount_in \<and>
                 d' = d\<lparr>sale_tab :=
                         map (\<lambda>x. if sid x = sid r
                                  then x\<lparr>sdiscount := sdiscount_in, stotal := t\<rparr>
                                  else x) (sale_tab d)\<rparr>"
    by (simp add: update_sale_row_def)
next
  show "book_tab (fst (update_sale flt d (sid r) sdiscount_in)) = book_tab d"
    by (simp add: update_sale_frame)
next
  assume "book_tab d (bid r) = Some bk \<and> in_int64 (sid r)"
  then have bk: "book_tab d (bid r) = Some bk" and sid: "in_int64 (sid r)" by simp_all
  from select_sale_unique[OF assms bk] sid
  show "update_sale NoFault d (sid r) sdiscount_in =
              (if in_int64 sdiscount_in \<and> in_int64 (bprice bk * sqty r - sdiscount_in)
               then (d\<lparr>sale_tab :=
                          map (\<lambda>x. if sid x = sid r
                                   then x\<lparr>sdiscount := sdiscount_in,
                                          stotal := bprice bk * sqty r - sdiscount_in\<rparr>
                                   else x) (sale_tab d)\<rparr>,
                     Inr (Some (SaleUpdated (sid r) (bprice bk * sqty r - sdiscount_in))))
               else (d, Inl OverflowError))"
    by (simp add: update_sale_NoFault update_sale_row_def)
qed

text \<open>
  The example of the claim: sale 1 was made at price 600 with quantity 2 and discount 100
  (total 1100); after the price has become 700, the discount 50 gives the total 1350.
\<close>

theorem update_sale_recomputes_total_witness:
  "update_sale NoFault repriced_db 1 50 =
     (repriced_db\<lparr>sale_tab := [
        \<lparr>sid = 1, sdate = ''2024-01-15'', mid = ''M001'', bid = ''B001'', sqty = 2, sdiscount = 50, stotal = 1350\<rparr>,
        \<lparr>sid = 2, sdate = ''2024-01-16'', mid = ''M002'', bid = ''B002'', sqty = 1, sdiscount = 50, stotal = 750\<rparr>,
        \<lparr>sid = 3, sdate = ''2024-01-17'', mid = ''M001'', bid = ''B003'', sqty = 3, sdiscount = 200, stotal = 3400\<rparr>,
        \<lparr>sid = 4, sdate = ''2024-01-18'', mid = ''M003'', bid = ''B001'', sqty = 1, sdiscount = 0, stotal = 600\<rparr>]\<rparr>,
      Inr (Some (SaleUpdated 1 1350))) \<and>
   (\<exists>bk. book_tab repriced_db ''B001'' = Some bk \<and> (1350::int) = bprice bk * 2 - 50) \<and>
   book_tab (fst (update_sale NoFault repriced_db 1 50)) = book_tab repriced_db"
proof -
  let ?r = "\<lparr>sid = 1, sdate = ''2024-01-15'', mid = ''M001'', bid = ''B001'', sqty = 2,
             sdiscount = 100, stotal = 1100\<rparr>"
  let ?bk = "\<lparr>btitle = ''Python Programming'', bprice = 700, bstock = 50\<rparr>"
  let ?d' = "repriced_db\<lparr>sale_tab := [
        \<lparr>sid = 1, sdate = ''2024-01-15'', mid = ''M001'', bid = ''B001'', sqty = 2, sdiscount = 50, stotal = 1350\<rparr>,
        \<lparr>sid = 2, sdate = ''2024-01-16'', mid = ''M002'', bid = ''B002'', sqty = 1, sdiscount = 50, stotal = 750\<rparr>,
        \<lparr>sid = 3, sdate = ''2024-01-17'', mid = ''M001'', bid = ''B003'', sqty = 3, sdiscount = 200, stotal = 3400\<rparr>,
        \<lparr>sid = 4, sdate = ''2024-01-18'', mid = ''M003'', bid = ''B001'', sqty = 1, sdiscount = 0, stotal = 600\<rparr>]\<rparr>"
  have 1: "distinct (map sid (sale_tab repriced_db))"
    by (simp add: repriced_db_def seed_db_def)
  have 2: "?r \<in> set (sale_tab repriced_db)"
    by (simp add: repriced_db_def seed_db_def)
  have 3: "book_tab repriced_db (bid ?r) = Some ?bk \<and> in_int64 (sid ?r)"
    by (simp add: repriced_db_def in_int64_def)
  have 4: "in_int64 50 \<and> in_int64 (bprice ?bk * sqty ?r - 50)"
    by (simp add: in_int64_def)
  note t = update_sale_recomputes_total[OF 1 2, where flt = NoFault and sdiscount_in = 50
             and d' = ?d' and s = 1 and t = 1350 and bk = ?bk]
  from t[THEN conjunct2, THEN conjunct2] 3 4
  have run: "update_sale NoFault repriced_db 1 50 = (?d', Inr (Some (SaleUpdated 1 1350)))"
    by (simp add: repriced_db_def seed_db_def)
  from t[THEN conjunct1] run
  have a: "\<exists>bk. book_tab repriced_db ''B001'' = Some bk \<and> (1350::int) = bprice bk * 2 - 50"
    by auto
  from t[THEN conjunct2, THEN conjunct1]
  have b: "book_tab (fst (update_sale NoFault repriced_db 1 50)) = book_tab repriced_db"
    by simp
  from run a b show ?thesis by blast
qed

text \<open>
  As the claim words it, for every update of an existing sale, it fails: sale 1 exists
  and the discount 2^63 is not negative, yet nothing is persisted. The integer does not
  fit the INTEGER column, and binding it raises \<open>OverflowError\<close>, which the \<open>except\<close>
  clause of line 240 does not catch.
\<close>

theorem update_sale_overflow_counterexample:
  "\<lparr>sid = 1, sdate = ''2024-01-15'', mid = ''M001'', bid = ''B001'', sqty = 2,
     sdiscount = 100, stotal = 1100\<rparr> \<in> set (sale_tab seed_db) \<and>
   (0::int) \<le> 2 ^ 63 \<and>
   update_sale NoFault seed_db 1 (2 ^ 63) = (seed_db, Inl OverflowError) \<and>
   2 ^ 63 \<notin> sdiscount ` set (sale_tab (fst (update_sale NoFault seed_db 1 (2 ^ 63))))"
proof -
  have run: "update_sale NoFault seed_db 1 (2 ^ 63) = (seed_db, Inl OverflowError)"
    by (simp add: update_sale_NoFault in_int64_def select_sale_def seed_db_def)
  show ?thesis unfolding run by (simp add: seed_db_def)
qed

text \<open>
  Claim C6. When no row of the sale table has the sid given to update_sale, the call
  changes nothing, whatever the storage does; and when the storage raises no error it
  prints nothing and raises nothing (the sid being one an INTEGER key can hold).
\<close>

theorem update_sale_missing_noop:
  assumes "sid_in \<notin> sid ` set (sale_tab d)"
  shows "fst (update_sale flt d sid_in sdiscount_in) = d \<and>
         (in_int64 sid_in \<longrightarrow> update_sale NoFault d sid_in sdiscount_in = (d, Inr None))"
  using select_sale_missing[OF assms] update_sale_fst_cases[of flt d sid_in sdiscount_in]
  by (auto simp: update_sale_NoFault)

theorem update_sale_missing_noop_witness:
  "9 \<notin> sid ` set (sale_tab seed_db) \<and> update_sale NoFault seed_db 9 50 = (seed_db, Inr None)"
proof -
  have 1: "9 \<notin> sid ` set (sale_tab seed_db)" by (simp add: seed_db_def)
  from update_sale_missing_noop[OF 1, of NoFault 50] 1 show ?thesis
    by (simp add: in_int64_def)
qed

text \<open>
  Claim C10. Updating the same sale with the same discount a second time, right after a
  first update on which the storage raised no error, leaves the database exactly as the
  first update left it. This holds for every sid and discount, and whatever the storage
  does on the second call.
\<close>

theorem update_sale_idempotent:
  "fst (update_sale flt (fst (update_sale NoFault d sid_in sdiscount_in)) sid_in sdiscount_in) =
   fst (update_sale NoFault d sid_in sdiscount_in)"
proof (cases "in_int64 sid_in")
  case False
  then show ?thesis by (simp add: update_sale_def execute_def)
next
  case True
  show ?thesis
  proof (cases "select_sale sid_in d")
    case None
    with True have "fst (update_sale NoFault d sid_in sdiscount_in) = d"
      by (simp add: update_sale_NoFault)
    moreover have "fst (update_sale flt d sid_in sdiscount_in) = d"
      using update_sale_fst_cases[of flt d sid_in sdiscount_in] None by auto
    ultimately show ?thesis by simp
  next
    case (Some qp)
    obtain qty price where qp: "qp = (qty, price)" by (cases qp)
    let ?t = "price * qty - sdiscount_in"
    show ?thesis
    proof (cases "in_int64 sdiscount_in \<and> in_int64 ?t")
      case False
      with True Some qp have 1: "fst (update_sale NoFault d sid_in sdiscount_in) = d"
        by (auto simp add: update_sale_NoFault)
      have "fst (update_sale flt d sid_in sdiscount_in) = d"
        using False True Some qp
        by (auto simp: update_sale_def execute_def commit_def Let_def split: option.splits)
      with 1 show ?thesis by simp
    next
      case ok: True
      let ?d1 = "update_sale_row sdiscount_in ?t sid_in d"
      from True Some qp ok have 1: "fst (update_sale NoFault d sid_in sdiscount_in) = ?d1"
        by (simp add: update_sale_NoFault)
      have sel: "select_sale sid_in ?d1 = Some (qty, price)"
        using Some qp by (simp add: select_sale_update_sale_row)
      have "fst (update_sale flt ?d1 sid_in sdiscount_in) = ?d1"
        using update_sale_fst_cases[of flt ?d1 sid_in sdiscount_in] sel
        by (auto simp: update_sale_row_idem)
      with 1 show ?thesis by simp
    qed
  qed
qed

theorem update_sale_idempotent_witness:
  "fst (update_sale NoFault (fst (update_sale NoFault seed_db 1 50)) 1 50) =
     fst (update_sale NoFault seed_db 1 50) \<and>
   sale_tab (fst (update_sale NoFault seed_db 1 50)) = [
     \<lparr>sid = 1, sdate = ''2024-01-15'', mid = ''M001'', bid = ''B001'', sqty = 2, sdiscount = 50, stotal = 1150\<rparr>,
     \<lparr>sid = 2, sdate = ''2024-01-16'', mid = ''M002'', bid = ''B002'', sqty = 1, sdiscount = 50, stotal = 750\<rparr>,
     \<lparr>sid = 3, sdate = ''2024-01-17'', mid = ''M001'', bid = ''B003'', sqty = 3, sdiscount = 200, stotal = 3400\<rparr>,
     \<lparr>sid = 4, sdate = ''2024-01-18'', mid = ''M003'', bid = ''B001'', sqty = 1, sdiscount = 0, stotal = 600\<rparr>]"
proof -
  have "sale_tab (fst (update_sale NoFault seed_db 1 50)) = [
     \<lparr>sid = 1, sdate = ''2024-01-15'', mid = ''M001'', bid = ''B001'', sqty = 2, sdiscount = 50, stotal = 1150\<rparr>,
     \<lparr>sid = 2, sdate = ''2024-01-16'', mid = ''M002'', bid = ''B002'', sqty = 1, sdiscount = 50, stotal = 750\<rparr>,
     \<lparr>sid = 3, sdate = ''2024-01-17'', mid = ''M001'', bid = ''B003'', sqty = 3, sdiscount = 200, stotal = 3400\<rparr>,
     \<lparr>sid = 4, sdate = ''2024-01-18'', mid = ''M003'', bid = ''B001'', sqty = 1, sdiscount = 0, stotal = 600\<rparr>]"
    by (simp add: update_sale_NoFault in_int64_def select_sale_def update_sale_row_def
                  seed_db_def)
  with update_sale_idempotent[of NoFault seed_db 1 50] show ?thesis by simp
qed

subsection \<open>Deleting a sale\<close>

text \<open>
  Claim C7. When the storage raises no error, delete_sale removes the rows with the given
  sid and no other: the sale table, the listing and the report are the old ones without
  that sid. No call of delete_sale, failed or not, changes the book or the member table,
  so the stock is not given back. Deleting a sid that no row has leaves the database
  as it was and prints the same message as a deletion. The sid is one an INTEGER key
  can hold.
\<close>

theorem delete_sale_removes_row:
  assumes "in_int64 sid_in"
  shows "delete_sale NoFault d sid_in =
           (d\<lparr>sale_tab := filter (\<lambda>r. sid r \<noteq> sid_in) (sale_tab d)\<rparr>,
            Inr (SaleDeleted sid_in)) \<and>
         list_sales (fst (delete_sale NoFault d sid_in)) =
           filter (\<lambda>y. fst y \<noteq> sid_in) (list_sales d) \<and>
         sale_report (fst (delete_sale NoFault d sid_in)) =
           filter (\<lambda>y. fst y \<noteq> sid_in) (sale_report d) \<and>
         (\<forall>flt. book_tab (fst (delete_sale flt d sid_in)) = book_tab d \<and>
                member_tab (fst (delete_sale flt d sid_in)) = member_tab d) \<and>
         (sid_in \<notin> sid ` set (sale_tab d) \<longrightarrow>
            delete_sale NoFault d sid_in = (d, Inr (SaleDeleted sid_in)))"
  using assms
  by (simp add: delete_sale_NoFault list_sales_delete sale_report_delete delete_sale_frame
                delete_sale_row_missing)
     (simp add: delete_sale_row_def)

theorem delete_sale_removes_row_witness:
  "sale_tab (fst (delete_sale NoFault seed_db 2)) = [
     \<lparr>sid = 1, sdate = ''2024-01-15'', mid = ''M001'', bid = ''B001'', sqty = 2, sdiscount = 100, stotal = 1100\<rparr>,
     \<lparr>sid = 3, sdate = ''2024-01-17'', mid = ''M001'', bid = ''B003'', sqty = 3, sdiscount = 200, stotal = 3400\<rparr>,
     \<lparr>sid = 4, sdate = ''2024-01-18'', mid = ''M003'', bid = ''B001'', sqty = 1, sdiscount = 0, stotal = 600\<rparr>] \<and>
   list_sales (fst (delete_sale NoFault seed_db 2)) =
     [(1, ''Alice'', ''2024-01-15''), (3, ''Alice'', ''2024-01-17''),
      (4, ''Cathy'', ''2024-01-18'')] \<and>
   book_tab (fst (delete_sale NoFault seed_db 2)) = book_tab seed_db \<and>
   delete_sale NoFault seed_db 9 = (seed_db, Inr (SaleDeleted 9))"
proof -
  have 1: "in_int64 2" "in_int64 9" by (simp_all add: in_int64_def)
  have 2: "9 \<notin> sid ` set (sale_tab seed_db)" by (simp add: seed_db_def)
  note t2 = delete_sale_removes_row[OF 1(1), of seed_db]
  note t9 = delete_sale_removes_row[OF 1(2), of seed_db]
  have a: "sale_tab (fst (delete_sale NoFault seed_db 2)) = [
     \<lparr>sid = 1, sdate = ''2024-01-15'', mid = ''M001'', bid = ''B001'', sqty = 2, sdiscount = 100, stotal = 1100\<rparr>,
     \<lparr>sid = 3, sdate = ''2024-01-17'', mid = ''M001'', bid = ''B003'', sqty = 3, sdiscount = 200, stotal = 3400\<rparr>,
     \<lparr>sid = 4, sdate = ''2024-01-18'', mid = ''M003'', bid = ''B001'', sqty = 1, sdiscount = 0, stotal = 600\<rparr>]"
    by (simp add: t2[THEN conjunct1] seed_sales)
  have b: "list_sales (fst (delete_sale NoFault seed_db 2)) =
     [(1, ''Alice'', ''2024-01-15''), (3, ''Alice'', ''2024-01-17''),
      (4, ''Cathy'', ''2024-01-18'')]"
    by (simp add: t2[THEN conjunct2, THEN conjunct1] seed_list_sales)
  have c: "book_tab (fst (delete_sale NoFault seed_db 2)) = book_tab seed_db"
    using t2[THEN conjunct2, THEN conjunct2, THEN conjunct2, THEN conjunct1] by blast
  have e: "delete_sale NoFault seed_db 9 = (seed_db, Inr (SaleDeleted 9))"
    using t9[THEN conjunct2, THEN conjunct2, THEN conjunct2, THEN conjunct2] 2 by blast
  from a b c e show ?thesis by blast
qed

subsection \<open>Stock over sequences of operations\<close>

lemma add_sale_stock_nonneg:
  assumes "stock_nonneg d"
  shows "stock_nonneg (fst (add_sale flt d sdate_in mid_in bid_in sqty_in sdiscount_in))"
  using add_sale_fst_cases[of flt d sdate_in mid_in bid_in sqty_in sdiscount_in] assms
  by (auto simp: stock_nonneg_def update_stock_def insert_sale_def split: if_splits)

lemma apply_op_stock_nonneg:
  assumes "stock_nonneg d"
  shows "stock_nonneg (apply_op d x)"
proof (cases x)
  case (Create flt sdate_in mid_in bid_in sqty_in sdiscount_in)
  with assms show ?thesis by (simp add: add_sale_stock_nonneg)
next
  case (Update flt sid_in sdiscount_in)
  with assms show ?thesis by (simp add: stock_nonneg_def update_sale_frame)
next
  case (Delete flt sid_in)
  with assms show ?thesis by (simp add: stock_nonneg_def delete_sale_frame)
qed

text \<open>
  Claim C8. If no book has a negative stock, then after any sequence of creates, updates
  and deletes, with any arguments and any storage errors, no book has a negative stock.
\<close>

theorem stock_never_negative:
  "stock_nonneg d \<Longrightarrow> stock_nonneg (run d ops)"
  unfolding run_def
  by (induction ops arbitrary: d) (simp_all add: apply_op_stock_nonneg)

text \<open>
  Selling all 50 copies of B001 brings its stock to 0; the next sale of one copy is
  refused, and the update and the delete that follow leave the stock at 0.
\<close>

theorem stock_never_negative_witness:
  "stock_nonneg seed_db \<and>
   stock_nonneg (run seed_db [Create NoFault ''2024-02-01'' ''M001'' ''B001'' 50 0,
                              Create NoFault ''2024-02-02'' ''M002'' ''B001'' 1 0,
                              Update NoFault 5 10, Delete NoFault 5]) \<and>
   map_option bstock
     (book_tab (run seed_db [Create NoFault ''2024-02-01'' ''M001'' ''B001'' 50 0,
                             Create NoFault ''2024-02-02'' ''M002'' ''B001'' 1 0,
                             Update NoFault 5 10, Delete NoFault 5]) ''B001'') = Some 0"
proof -
  have 1: "stock_nonneg seed_db"
    by (auto simp: stock_nonneg_def seed_db_def split: if_splits)
  have 2: "map_option bstock
     (book_tab (run seed_db [Create NoFault ''2024-02-01'' ''M001'' ''B001'' 50 0,
                             Create NoFault ''2024-02-02'' ''M002'' ''B001'' 1 0,
                             Update NoFault 5 10, Delete NoFault 5]) ''B001'') = Some 0"
    by (simp add: run_def update_sale_frame delete_sale_frame)
       (simp add: add_sale_def valid_0201 valid_0202 seed_db_def execute_def commit_def
                  in_int64_def insert_sale_def update_stock_def next_sid_def)
  from 1 2 stock_never_negative[OF 1] show ?thesis by simp
qed

subsection \<open>The date validator\<close>

text \<open>The five examples of the specification come out as it says.\<close>

lemma validate_date_examples:
  "validate_date ''2024-01-15'' \<and> \<not> validate_date ''2024-1-15'' \<and>
   \<not> validate_date ''2024/01/15'' \<and> \<not> validate_date ''2024-02-30'' \<and>
   \<not> validate_date ''15-01-2024''"
  by (simp add: validate_date_unfold)

text \<open>
  What validate_date accepts, for every string over the code points below 256: the real
  dates written YYYY-MM-DD, and the strings that become one when the blank in front of
  the day's digit is replaced by a zero. The proof follows the matcher through a string
  of ten characters. Beyond these code points Python's \<open>\d\<close> and \<open>int\<close> also take
  the other decimal digits of Unicode, in the year and in the second place of the day;
  strings with such digits are not values of \<^typ>\<open>string\<close>, and nothing here is
  about them.
\<close>

lemma length_10_cases: "length s = 10 \<Longrightarrow> \<exists>a b c d e f g h i j. s = [a,b,c,d,e,f,g,h,i,j]"
  by (auto simp: eval_nat_numeral length_Suc_conv)

lemma re_Y_4:
  "re_Y (a # b # c # d # r) =
     (if is_digit a \<and> is_digit b \<and> is_digit c \<and> is_digit d then [([a, b, c, d], r)] else [])"
  by (simp add: re_Y_def seq_def)

lemma re_m_2:
  "re_m (f # g # r) =
     (if f = CHR ''1'' \<and> in_range (CHR ''0'') (CHR ''2'') g then [([f, g], r)] else []) @
     (if f = CHR ''0'' \<and> in_range (CHR ''1'') (CHR ''9'') g then [([f, g], r)] else []) @
     (if in_range (CHR ''1'') (CHR ''9'') f then [([f], g # r)] else [])"
  by (simp add: re_m_def alt_def seq_def lit_def)

lemma re_d_2:
  "re_d [i, j] =
     (if i = CHR ''3'' \<and> in_range (CHR ''0'') (CHR ''1'') j then [([i, j], [])] else []) @
     (if in_range (CHR ''1'') (CHR ''2'') i \<and> is_digit j then [([i, j], [])] else []) @
     (if i = CHR ''0'' \<and> in_range (CHR ''1'') (CHR ''9'') j then [([i, j], [])] else []) @
     (if in_range (CHR ''1'') (CHR ''9'') i then [([i], [j])] else []) @
     (if i = CHR '' '' \<and> in_range (CHR ''1'') (CHR ''9'') j then [([i, j], [])] else [])"
  by (simp add: re_d_def alt_def seq_def lit_def)

lemma re_d_rest: "(x, r) \<in> set (re_d (h # i # j # t)) \<Longrightarrow> r \<noteq> []"
  by (auto simp: re_d_def alt_def seq_def lit_def split: if_splits)

lemma format_regex_10:
  "format_regex [a, b, c, d, e, f, g, h, i, j] =
     (if is_digit a \<and> is_digit b \<and> is_digit c \<and> is_digit d \<and> e = CHR ''-'' then
        (if f = CHR ''1'' \<and> in_range (CHR ''0'') (CHR ''2'') g \<and> h = CHR ''-''
         then map (\<lambda>(dd, r). (([a, b, c, d], [f, g], dd), r)) (re_d [i, j]) else []) @
        (if f = CHR ''0'' \<and> in_range (CHR ''1'') (CHR ''9'') g \<and> h = CHR ''-''
         then map (\<lambda>(dd, r). (([a, b, c, d], [f, g], dd), r)) (re_d [i, j]) else []) @
        (if in_range (CHR ''1'') (CHR ''9'') f \<and> g = CHR ''-''
         then map (\<lambda>(dd, r). (([a, b, c, d], [f], dd), r)) (re_d [h, i, j]) else [])
      else [])"
  by (simp add: format_regex_def re_Y_4 re_m_2 lit_def)


lemma range_excludes:
  "\<not> in_range (CHR ''0'') hi (CHR ''-'')" "\<not> in_range (CHR ''1'') hi (CHR ''-'')"
  "\<not> in_range (CHR ''1'') hi (CHR '' '')"
  by (simp_all add: in_range_def)

lemma first_day_match:
  "(case map (\<lambda>(dd, r). ((y, m, dd), r)) (re_d [i, j]) of
      [] \<Rightarrow> None
    | ((y, m, d), rest) # _ \<Rightarrow>
        if rest \<noteq> [] then None
        else if date_ok (py_int y) (py_int m) (py_int d)
             then Some (py_int y, py_int m, py_int d) else None) \<noteq> None
   \<longleftrightarrow>
   ((i = CHR ''3'' \<and> in_range (CHR ''0'') (CHR ''1'') j) \<or>
    (in_range (CHR ''1'') (CHR ''2'') i \<and> is_digit j) \<or>
    (i = CHR ''0'' \<and> in_range (CHR ''1'') (CHR ''9'') j) \<or>
    (i = CHR '' '' \<and> in_range (CHR ''1'') (CHR ''9'') j)) \<and>
   date_ok (py_int y) (py_int m) (py_int [i, j])"
  using range_excludes(3)[of "CHR ''9''"]
  by (auto simp: re_d_2)

lemma first_short_month_match:
  "(case map (\<lambda>(dd, r). ((y, m, dd), r)) (re_d [h, i, j]) of
      [] \<Rightarrow> None
    | ((y, m, d), rest) # _ \<Rightarrow>
        if rest \<noteq> [] then None
        else if date_ok (py_int y) (py_int m) (py_int d)
             then Some (py_int y, py_int m, py_int d) else None) = None"
proof (cases "re_d [h, i, j]")
  case Nil
  then show ?thesis by simp
next
  case (Cons p ps)
  obtain x r where p: "p = (x, r)" by (cases p)
  with Cons have "(x, r) \<in> set (re_d [h, i, j])" by simp
  then have "r \<noteq> []" by (rule re_d_rest)
  with Cons p show ?thesis by simp
qed

lemma strptime_10:
  "strptime [a, b, c, d, e, f, g, h, i, j] \<noteq> None \<longleftrightarrow>
     is_digit a \<and> is_digit b \<and> is_digit c \<and> is_digit d \<and> e = CHR ''-'' \<and>
     ((f = CHR ''1'' \<and> in_range (CHR ''0'') (CHR ''2'') g) \<or>
      (f = CHR ''0'' \<and> in_range (CHR ''1'') (CHR ''9'') g)) \<and> h = CHR ''-'' \<and>
     ((i = CHR ''3'' \<and> in_range (CHR ''0'') (CHR ''1'') j) \<or>
      (in_range (CHR ''1'') (CHR ''2'') i \<and> is_digit j) \<or>
      (i = CHR ''0'' \<and> in_range (CHR ''1'') (CHR ''9'') j) \<or>
      (i = CHR '' '' \<and> in_range (CHR ''1'') (CHR ''9'') j)) \<and>
     date_ok (py_int [a, b, c, d]) (py_int [f, g]) (py_int [i, j])"
proof (cases "is_digit a \<and> is_digit b \<and> is_digit c \<and> is_digit d \<and> e = CHR ''-''")
  case False
  then show ?thesis by (auto simp: strptime_def format_regex_10)
next
  case pre: True
  show ?thesis
  proof (cases "((f = CHR ''1'' \<and> in_range (CHR ''0'') (CHR ''2'') g) \<or>
      (f = CHR ''0'' \<and> in_range (CHR ''1'') (CHR ''9'') g)) \<and> h = CHR ''-''")
    case True
    then have g: "g \<noteq> CHR ''-''" using range_excludes(1,2) by auto
    from True pre g have
      "format_regex [a, b, c, d, e, f, g, h, i, j] =
         map (\<lambda>(dd, r). (([a, b, c, d], [f, g], dd), r)) (re_d [i, j])"
      by (auto simp: format_regex_10)
    then show ?thesis
      using True pre first_day_match[of "[a, b, c, d]" "[f, g]" i j]
      by (simp add: strptime_def)
  next
    case False
    with pre have
      "format_regex [a, b, c, d, e, f, g, h, i, j] = [] \<or>
       format_regex [a, b, c, d, e, f, g, h, i, j] =
         map (\<lambda>(dd, r). (([a, b, c, d], [f], dd), r)) (re_d [h, i, j])"
      by (auto simp: format_regex_10)
    then have "strptime [a, b, c, d, e, f, g, h, i, j] = None"
      using first_short_month_match[of "[a, b, c, d]" "[f]" h i j]
      by (auto simp: strptime_def)
    with False show ?thesis by auto
  qed
qed


lemma char_codes:
  "(c = CHR ''0'') = ((of_char c :: nat) = 48)"
  "(c = CHR ''1'') = ((of_char c :: nat) = 49)"
  "(c = CHR ''3'') = ((of_char c :: nat) = 51)"
  "(c = CHR ''-'') = ((of_char c :: nat) = 45)"
  "(c = CHR '' '') = ((of_char c :: nat) = 32)"
proof -
  have "(c = k) = ((of_char c :: nat) = of_char k)" for k by simp
  from this[of "CHR ''0''"] this[of "CHR ''1''"] this[of "CHR ''3''"] this[of "CHR ''-''"]
    this[of "CHR '' ''"]
  show "(c = CHR ''0'') = ((of_char c :: nat) = 48)"
    "(c = CHR ''1'') = ((of_char c :: nat) = 49)"
    "(c = CHR ''3'') = ((of_char c :: nat) = 51)"
    "(c = CHR ''-'') = ((of_char c :: nat) = 45)"
    "(c = CHR '' '') = ((of_char c :: nat) = 32)"
    by simp_all
qed

lemma in_range_codes:
  "in_range (CHR ''0'') (CHR ''9'') c = (48 \<le> (of_char c :: nat) \<and> (of_char c :: nat) \<le> 57)"
  "in_range (CHR ''1'') (CHR ''9'') c = (49 \<le> (of_char c :: nat) \<and> (of_char c :: nat) \<le> 57)"
  "in_range (CHR ''0'') (CHR ''2'') c = (48 \<le> (of_char c :: nat) \<and> (of_char c :: nat) \<le> 50)"
  "in_range (CHR ''0'') (CHR ''1'') c = (48 \<le> (of_char c :: nat) \<and> (of_char c :: nat) \<le> 49)"
  "in_range (CHR ''1'') (CHR ''2'') c = (49 \<le> (of_char c :: nat) \<and> (of_char c :: nat) \<le> 50)"
  by (simp_all add: in_range_def)

lemma py_int_2:
  "is_digit f \<Longrightarrow> is_digit g \<Longrightarrow> py_int [f, g] = 10 * digit_of f + digit_of g"
  by (auto simp: py_int_def strip_def is_digit_def in_range_codes char_codes)

lemma py_int_padded:
  "is_digit g \<Longrightarrow> py_int [CHR '' '', g] = digit_of g \<and> py_int [CHR ''0'', g] = digit_of g"
  by (auto simp: py_int_def strip_def is_digit_def in_range_codes char_codes digit_of_def)

lemma month_field:
  "((f = CHR ''1'' \<and> in_range (CHR ''0'') (CHR ''2'') g) \<or>
    (f = CHR ''0'' \<and> in_range (CHR ''1'') (CHR ''9'') g)) \<longleftrightarrow>
   is_digit f \<and> is_digit g \<and> 1 \<le> py_int [f, g] \<and> py_int [f, g] \<le> 12"
proof (cases "is_digit f \<and> is_digit g")
  case True
  then show ?thesis
    by (simp add: py_int_2) (simp add: is_digit_def in_range_codes char_codes digit_of_def; arith)
next
  case False
  then show ?thesis
    by (auto simp: is_digit_def in_range_codes char_codes)
qed

lemma day_field:
  "((i = CHR ''3'' \<and> in_range (CHR ''0'') (CHR ''1'') j) \<or>
    (in_range (CHR ''1'') (CHR ''2'') i \<and> is_digit j) \<or>
    (i = CHR ''0'' \<and> in_range (CHR ''1'') (CHR ''9'') j)) \<longleftrightarrow>
   is_digit i \<and> is_digit j \<and> 1 \<le> py_int [i, j] \<and> py_int [i, j] \<le> 31"
proof (cases "is_digit i \<and> is_digit j")
  case True
  then show ?thesis
    by (simp add: py_int_2) (simp add: is_digit_def in_range_codes char_codes digit_of_def; arith)
next
  case False
  then show ?thesis
    by (auto simp: is_digit_def in_range_codes char_codes)
qed

lemma days_in_month_le: "days_in_month y m \<le> 31"
  by (simp add: days_in_month_def)


lemma digit_not_sep: "is_digit c \<Longrightarrow> c \<noteq> CHR ''-''"
  by (auto simp: is_digit_def in_range_codes)

lemma spec_is_valid_date_10:
  "spec_is_valid_date [a, b, c, d, e, f, g, h, i, j] \<longleftrightarrow>
     is_digit a \<and> is_digit b \<and> is_digit c \<and> is_digit d \<and> e = CHR ''-'' \<and>
     is_digit f \<and> is_digit g \<and> h = CHR ''-'' \<and> is_digit i \<and> is_digit j \<and>
     date_ok (py_int [a, b, c, d]) (py_int [f, g]) (py_int [i, j])"
  by (auto simp: spec_is_valid_date_def)

lemma strptime_10_fields:
  "strptime [a, b, c, d, e, f, g, h, i, j] \<noteq> None \<longleftrightarrow>
      (is_digit a \<and> is_digit b \<and> is_digit c \<and> is_digit d \<and> e = CHR ''-'' \<and>
     is_digit f \<and> is_digit g \<and> h = CHR ''-'') \<and> 1 \<le> py_int [f, g] \<and> py_int [f, g] \<le> 12 \<and>
      ((is_digit i \<and> is_digit j \<and> 1 \<le> py_int [i, j] \<and> py_int [i, j] \<le> 31) \<or>
       (i = CHR '' '' \<and> in_range (CHR ''1'') (CHR ''9'') j)) \<and>
      date_ok (py_int [a, b, c, d]) (py_int [f, g]) (py_int [i, j])"
  unfolding strptime_10 using month_field[of f g] day_field[of i j] by blast

lemma date_ok_bounds:
  "date_ok y m d \<Longrightarrow> 1 \<le> m \<and> m \<le> 12 \<and> 1 \<le> d \<and> d \<le> 31"
  using days_in_month_le[of y m] by (auto simp: date_ok_def)

lemma blank_not_digit: "\<not> is_digit (CHR '' '')"
  by (simp add: is_digit_def in_range_def)

lemma padded_digit:
  "in_range (CHR ''1'') (CHR ''9'') j \<longleftrightarrow> is_digit j \<and> 1 \<le> digit_of j"
  by (auto simp: is_digit_def in_range_codes digit_of_def)

lemma day_part:
  "((is_digit i \<and> is_digit j \<and> 1 \<le> py_int [i, j] \<and> py_int [i, j] \<le> 31) \<or>
    (i = CHR '' '' \<and> in_range (CHR ''1'') (CHR ''9'') j)) \<and>
   date_ok y m (py_int [i, j]) \<longleftrightarrow>
   (is_digit i \<and> is_digit j \<and> date_ok y m (py_int [i, j])) \<or>
   (i = CHR '' '' \<and> is_digit j \<and> date_ok y m (digit_of j))"
proof (cases "i = CHR '' ''")
  case True
  show ?thesis
  proof (cases "is_digit j")
    case dj: True
    from py_int_padded[OF dj] have p: "py_int [i, j] = digit_of j" using True by simp
    show ?thesis
      unfolding p padded_digit using True dj blank_not_digit date_ok_bounds[of y m "digit_of j"]
      by blast
  next
    case False
    then show ?thesis using True blank_not_digit padded_digit[of j] by blast
  qed
next
  case False
  then show ?thesis using date_ok_bounds[of y m "py_int [i, j]"] by blast
qed


lemma spec_is_valid_date_padded:
  "spec_is_valid_date [a, b, c, d, e, f, g, h, CHR ''0'', j] \<longleftrightarrow>
     is_digit a \<and> is_digit b \<and> is_digit c \<and> is_digit d \<and> e = CHR ''-'' \<and>
     is_digit f \<and> is_digit g \<and> h = CHR ''-'' \<and> is_digit j \<and>
     date_ok (py_int [a, b, c, d]) (py_int [f, g]) (digit_of j)"
proof (cases "is_digit j")
  case True
  have zero: "is_digit (CHR ''0'')" by (simp add: is_digit_def in_range_def)
  from py_int_padded[OF True] have p: "py_int [CHR ''0'', j] = digit_of j" by simp
  show ?thesis unfolding spec_is_valid_date_10 p using True zero by blast
next
  case False
  then show ?thesis unfolding spec_is_valid_date_10 by blast
qed

lemma strptime_10_spec:
  "strptime [a, b, c, d, e, f, g, h, i, j] \<noteq> None \<longleftrightarrow>
     spec_is_valid_date [a, b, c, d, e, f, g, h, i, j] \<or>
     (i = CHR '' '' \<and> spec_is_valid_date [a, b, c, d, e, f, g, h, CHR ''0'', j])"
proof -
  note A = spec_is_valid_date_padded[of a b c d e f g h j]
  note B = spec_is_valid_date_10[of a b c d e f g h i j]
  show ?thesis
    unfolding A B
    using strptime_10_fields[of a b c d e f g h i j]
      day_part[of i j "py_int [a, b, c, d]" "py_int [f, g]"]
      date_ok_bounds[of "py_int [a, b, c, d]" "py_int [f, g]" "py_int [i, j]"]
      date_ok_bounds[of "py_int [a, b, c, d]" "py_int [f, g]" "digit_of j"]
    by argo
qed

lemma spec_is_valid_date_count:
  assumes "spec_is_valid_date [a, b, c, d, e, f, g, h, i, j] \<or>
     (i = CHR '' '' \<and> spec_is_valid_date [a, b, c, d, e, f, g, h, CHR ''0'', j])"
  shows "count_list [a, b, c, d, e, f, g, h, i, j] (CHR ''-'') = 2"
proof -
  note A = spec_is_valid_date_padded[of a b c d e f g h j]
  note B = spec_is_valid_date_10[of a b c d e f g h i j]
  from assms have all:
    "is_digit a \<and> is_digit b \<and> is_digit c \<and> is_digit d \<and> is_digit f \<and> is_digit g \<and>
     is_digit j \<and> e = CHR ''-'' \<and> h = CHR ''-'' \<and> (is_digit i \<or> i = CHR '' '')"
    unfolding A B by argo
  then have sep: "e = CHR ''-''" "h = CHR ''-''" by simp_all
  from all have "a \<noteq> CHR ''-''" "b \<noteq> CHR ''-''" "c \<noteq> CHR ''-''" "d \<noteq> CHR ''-''"
    "f \<noteq> CHR ''-''" "g \<noteq> CHR ''-''" "j \<noteq> CHR ''-''"
    using digit_not_sep by blast+
  moreover from all have "i \<noteq> CHR ''-''" using digit_not_sep[of i] by auto
  ultimately show ?thesis using sep by simp
qed

lemma validate_date_10:
  "validate_date [a, b, c, d, e, f, g, h, i, j] \<longleftrightarrow>
     spec_is_valid_date [a, b, c, d, e, f, g, h, i, j] \<or>
     (i = CHR '' '' \<and> spec_is_valid_date [a, b, c, d, e, f, g, h, CHR ''0'', j])"
proof -
  let ?s = "[a, b, c, d, e, f, g, h, i, j]"
  have "validate_date ?s \<longleftrightarrow> count_list ?s (CHR ''-'') = 2 \<and> strptime ?s \<noteq> None"
    by (simp add: validate_date_def del: count_list.simps split: option.splits)
  then show ?thesis
    using strptime_10_spec[of a b c d e f g h i j]
      spec_is_valid_date_count[of a b c d e f g h i j]
    by blast
qed

lemma validate_date_characterised:
  "validate_date s \<longleftrightarrow>
     spec_is_valid_date s \<or>
     (length s = 10 \<and> s ! 8 = CHR '' '' \<and> spec_is_valid_date (s[8 := CHR ''0'']))"
proof (cases "length s = 10")
  case False
  then show ?thesis by (simp add: validate_date_def spec_is_valid_date_def)
next
  case True
  from length_10_cases[OF True] obtain a b c d e f g h i j where s: "s = [a, b, c, d, e, f, g, h, i, j]"
    by blast
  show ?thesis unfolding s using validate_date_10[of a b c d e f g h i j] by simp
qed

text \<open>
  Claim C4. validate_date is to accept exactly the strings of ten characters that are a
  real date written YYYY-MM-DD. It does not: a day written as a blank and a digit passes
  the length check, the count of separators and \<open>strptime\<close>, whose pattern for \<open>%d\<close> has
  the alternative \<open>blank, 1-9\<close>. Such a string is not a date written YYYY-MM-DD.
\<close>

theorem validate_date_accepts_padded_day:
  "validate_date ''2024-01- 5'' \<and> \<not> spec_is_valid_date ''2024-01- 5''"
  by (simp add: validate_date_unfold spec_is_valid_date_def)

theorem validate_date_accepts_padded_day_witness:
  "validate_date ''2024-01- 5''"
  using validate_date_accepts_padded_day by simp

end
